theory Spec2Isabelle
  imports Main "HOL-Library.Sublist" "HOL-Library.Char_ord" "HOL-Library.List_Lexorder"
    "HOL-Library.AList"
begin

section \<open>gddo-server/pkgsite.go: teeing and redirecting godoc.org requests\<close>

text \<open>
  Go strings are byte sequences; they are modelled as \<open>string\<close> (a list of 8-bit
  characters). \<open>strings.HasPrefix u p\<close> is \<open>prefix p u\<close>, \<open>strings.HasSuffix u s\<close> is
  \<open>suffix s u\<close> and \<open>strings.Contains u s\<close> is \<open>sublist s u\<close> (a contiguous
  occurrence).
\<close>

subsection \<open>Go maps with a bool value\<close>

text \<open>
  A \<open>map[string]bool\<close> literal is an association list; indexing a Go map with a key
  that is absent yields the zero value, here \<open>false\<close>.
\<close>

definition index_bool :: "(string \<times> bool) list \<Rightarrow> string \<Rightarrow> bool" where
  "index_bool m k = (case map_of m k of Some b \<Rightarrow> b | None \<Rightarrow> False)"

definition doNotTeeURLsToPkgGoDev :: "(string \<times> bool) list" where
  "doNotTeeURLsToPkgGoDev = [(''/-/bot'', True), (''/-/refresh'', True)]"

definition doNotTeeExtsToPkgGoDev :: "(string \<times> bool) list" where
  "doNotTeeExtsToPkgGoDev =
     [(''.css'', True), (''.html'', True), (''.js'', True), (''.txt'', True), (''.xml'', True)]"

subsection \<open>path/filepath.Ext\<close>

text \<open>
  The library loop (with \<open>/\<close> the path separator):
  \<^verbatim>\<open>for i := len(path) - 1; i >= 0 && !os.IsPathSeparator(path[i]); i-- {
      if path[i] == '.' { return path[i:] }
  }
  return ""\<close>
  \<open>Ext_loop path n\<close> is the loop entered with \<open>i = n - 1\<close>; every index read is
  below \<open>n \<le> length path\<close>.
\<close>

fun Ext_loop :: "string \<Rightarrow> nat \<Rightarrow> string" where
  "Ext_loop path 0 = ''''"
| "Ext_loop path (Suc i) =
     (if path ! i = CHR ''/'' then ''''
      else if path ! i = CHR ''.'' then drop i path
      else Ext_loop path i)"

definition Ext :: "string \<Rightarrow> string" where
  "Ext path = Ext_loop path (length path)"

text \<open>
  The words of the library's documentation, used to state what \<open>Ext\<close> computes: the final
  element of a path is what follows its last separator, and the extension is the suffix
  of that element beginning at its final dot, empty if there is no dot.
\<close>

definition final_segment :: "string \<Rightarrow> string" where
  "final_segment path = rev (takeWhile (\<lambda>c. c \<noteq> CHR ''/'') (rev path))"

definition extension_of :: "string \<Rightarrow> string" where
  "extension_of seg =
     (if CHR ''.'' \<in> set seg then CHR ''.'' # rev (takeWhile (\<lambda>c. c \<noteq> CHR ''.'') (rev seg))
      else '''')"

subsection \<open>shouldTeeRequest\<close>

definition shouldTeeRequest :: "string \<Rightarrow> bool" where
  "shouldTeeRequest u =
     (if prefix ''/_ah/'' u then False
      else let ext = Ext u in
        if index_bool doNotTeeExtsToPkgGoDev ext then False
        else if index_bool doNotTeeURLsToPkgGoDev u then False
        else True)"

subsection \<open>net/url: escaping\<close>

text \<open>
  The three escaping modes of \<open>net/url\<close> that this program reaches: the path and the
  host when a URL is printed, and query components when \<open>Values.Encode\<close> and
  \<open>ParseQuery\<close> run.
\<close>

datatype encoding = encodePath | encodeHost | encodeQueryComponent

text \<open>The byte comparison \<open>lo <= c && c <= hi\<close> that the library's character tests are made of.\<close>

definition between :: "char \<Rightarrow> char \<Rightarrow> char \<Rightarrow> bool" where
  "between lo c hi \<longleftrightarrow> lo \<le> c \<and> c \<le> hi"

definition isalnum :: "char \<Rightarrow> bool" where
  "isalnum c \<longleftrightarrow>
     between CHR ''a'' c CHR ''z'' \<or> between CHR ''A'' c CHR ''Z'' \<or> between CHR ''0'' c CHR ''9''"

definition shouldEscape :: "char \<Rightarrow> encoding \<Rightarrow> bool" where
  "shouldEscape c mode =
     (if isalnum c then False
      else if mode = encodeHost
              \<and> (c \<in> set ''!$&()*+,;=:[]<>'' \<or> c = CHR 0x27 \<or> c = CHR 0x22) then False
      else if c \<in> set ''-_.~'' then False
      else if c \<in> set ''$&+,/:;=?@'' \<and> mode = encodePath then c = CHR ''?''
      else True)"

definition upperhex :: string where
  "upperhex = ''0123456789ABCDEF''"

fun escape :: "string \<Rightarrow> encoding \<Rightarrow> string" where
  "escape [] mode = []"
| "escape (c # s) mode =
     (if shouldEscape c mode then
        (if c = CHR '' '' \<and> mode = encodeQueryComponent then CHR ''+'' # escape s mode
         else CHR ''%'' # upperhex ! (of_char c div 16) # upperhex ! (of_char c mod 16)
                # escape s mode)
      else c # escape s mode)"

definition QueryEscape :: "string \<Rightarrow> string" where
  "QueryEscape s = escape s encodeQueryComponent"

definition ishex :: "char \<Rightarrow> bool" where
  "ishex c \<longleftrightarrow>
     between CHR ''0'' c CHR ''9'' \<or> between CHR ''a'' c CHR ''f'' \<or> between CHR ''A'' c CHR ''F''"

definition unhex :: "char \<Rightarrow> nat" where
  "unhex c =
     (if between CHR ''0'' c CHR ''9'' then of_char c - of_char CHR ''0''
      else if between CHR ''a'' c CHR ''f'' then of_char c - of_char CHR ''a'' + 10
      else if between CHR ''A'' c CHR ''F'' then of_char c - of_char CHR ''A'' + 10
      else 0)"

datatype query_error = EscapeError string | InvalidSemicolon

text \<open>
  \<open>QueryUnescape\<close>: a \<open>%\<close> must be followed by two hex digits, else the result is an
  \<open>EscapeError\<close> carrying at most three bytes from the \<open>%\<close> on; \<open>+\<close> becomes a space.
\<close>

fun QueryUnescape :: "string \<Rightarrow> query_error + string" where
  "QueryUnescape [] = Inr []"
| "QueryUnescape (c # s) =
     (if c = CHR ''%'' then
        (case s of
           h1 # h2 # rest \<Rightarrow>
             if ishex h1 \<and> ishex h2 then
               (case QueryUnescape rest of
                  Inl e \<Rightarrow> Inl e
                | Inr t \<Rightarrow> Inr (char_of (unhex h1 * 16 + unhex h2) # t))
             else Inl (EscapeError (take 3 (c # s)))
         | _ \<Rightarrow> Inl (EscapeError (take 3 (c # s))))
      else
        (case QueryUnescape s of
           Inl e \<Rightarrow> Inl e
         | Inr t \<Rightarrow> Inr ((if c = CHR ''+'' then CHR '' '' else c) # t)))"

subsection \<open>net/url: Values\<close>

text \<open>
  \<open>url.Values\<close> is a \<open>map[string][]string\<close>: an association list with one entry for
  each key. Indexing with an absent key yields the nil slice.
\<close>

type_synonym Values = "(string \<times> string list) list"

definition index_values :: "Values \<Rightarrow> string \<Rightarrow> string list" where
  "index_values v key = (case map_of v key of Some vs \<Rightarrow> vs | None \<Rightarrow> [])"

definition has_key :: "Values \<Rightarrow> string \<Rightarrow> bool" where
  "has_key v key \<longleftrightarrow> map_of v key \<noteq> None"

definition Get :: "Values \<Rightarrow> string \<Rightarrow> string" where
  "Get v key = (case index_values v key of [] \<Rightarrow> '''' | x # _ \<Rightarrow> x)"

definition Set :: "Values \<Rightarrow> string \<Rightarrow> string \<Rightarrow> Values" where
  "Set v key val = AList.update key [val] v"

definition Add :: "Values \<Rightarrow> string \<Rightarrow> string \<Rightarrow> Values" where
  "Add v key val = AList.update key (index_values v key @ [val]) v"

text \<open>
  \<open>Encode\<close> walks the keys in sorted order and writes \<open>key=value\<close> for every value,
  with \<open>&\<close> before each pair but the first.
\<close>

definition write_pair :: "string \<Rightarrow> string \<Rightarrow> string \<Rightarrow> string" where
  "write_pair keyEscaped buf val =
     (if buf \<noteq> [] then buf @ ''&'' else buf) @ keyEscaped @ ''='' @ QueryEscape val"

definition Encode :: "Values \<Rightarrow> string" where
  "Encode v =
     foldl (\<lambda>buf k. foldl (write_pair (QueryEscape k)) buf (index_values v k))
       [] (sort (map fst v))"

subsection \<open>net/url: ParseQuery\<close>

text \<open>\<open>strings.Cut s sep\<close> for a one-byte separator: the text before and after its first occurrence.\<close>

definition Cut :: "string \<Rightarrow> char \<Rightarrow> string \<times> string" where
  "Cut s sep = (takeWhile (\<lambda>c. c \<noteq> sep) s, drop 1 (dropWhile (\<lambda>c. c \<noteq> sep) s))"

lemma Cut_shorter: "s \<noteq> [] \<Longrightarrow> (key, rest) = Cut s sep \<Longrightarrow> length rest < length s"
proof -
  assume ne: "s \<noteq> []" and cut: "(key, rest) = Cut s sep"
  have le: "length (dropWhile (\<lambda>c. c \<noteq> sep) s) \<le> length s"
    by (rule length_dropWhile_le)
  from cut have rest: "rest = drop 1 (dropWhile (\<lambda>c. c \<noteq> sep) s)"
    by (simp add: Cut_def)
  show ?thesis
  proof (cases "dropWhile (\<lambda>c. c \<noteq> sep) s")
    case Nil
    with ne rest show ?thesis by simp
  next
    case (Cons c cs)
    with le rest show ?thesis by simp
  qed
qed

text \<open>
  The loop of \<open>parseQuery\<close>: pairs are separated by \<open>&\<close>; a pair holding a semicolon, an
  empty pair and a pair whose key or value does not unescape are skipped; the first
  unescaping error is kept, a semicolon error replaces whatever was there.
\<close>

function parseQuery :: "Values \<Rightarrow> query_error option \<Rightarrow> string \<Rightarrow> Values \<times> query_error option" where
  "parseQuery m err query =
     (if query = [] then (m, err)
      else
        let (key, query') = Cut query CHR ''&'' in
        if CHR '';'' \<in> set key then parseQuery m (Some InvalidSemicolon) query'
        else if key = [] then parseQuery m err query'
        else
          let (key', val) = Cut key CHR ''='' in
          case QueryUnescape key' of
            Inl err1 \<Rightarrow> parseQuery m (if err = None then Some err1 else err) query'
          | Inr key1 \<Rightarrow>
              (case QueryUnescape val of
                 Inl err1 \<Rightarrow> parseQuery m (if err = None then Some err1 else err) query'
               | Inr value1 \<Rightarrow> parseQuery (Add m key1 value1) err query'))"
  by pat_completeness auto
termination
  by (relation "measure (\<lambda>(m, err, query). length query)")
     (auto dest: Cut_shorter)

definition ParseQuery :: "string \<Rightarrow> Values \<times> query_error option" where
  "ParseQuery query = parseQuery [] None query"

subsection \<open>net/url: URL\<close>

text \<open>
  The fields of \<open>url.URL\<close> that the program reads or sets; it leaves \<open>Opaque\<close>, \<open>User\<close>,
  \<open>RawPath\<close>, \<open>ForceQuery\<close> and \<open>Fragment\<close> at their zero values.
\<close>

record url =
  Scheme :: string
  Host :: string
  Path :: string
  RawQuery :: string

text \<open>\<open>Query\<close> parses \<open>RawQuery\<close> and drops the error.\<close>

definition Query :: "url \<Rightarrow> Values" where
  "Query u = fst (ParseQuery (RawQuery u))"

definition EscapedPath :: "url \<Rightarrow> string" where
  "EscapedPath u = (if Path u = ''*'' then ''*'' else escape (Path u) encodePath)"

text \<open>\<open>URL.String\<close> with no opaque part, no user information and no fragment.\<close>

definition URL_String :: "url \<Rightarrow> string" where
  "URL_String u =
     (let buf0 = (if Scheme u \<noteq> [] then Scheme u @ '':'' else []);
          buf1 = (if Scheme u \<noteq> [] \<or> Host u \<noteq> [] then
                    (if Host u \<noteq> [] \<or> Path u \<noteq> [] then buf0 @ ''//'' else buf0)
                      @ (if Host u \<noteq> [] then escape (Host u) encodeHost else [])
                  else buf0);
          path = EscapedPath u;
          buf2 = (if path \<noteq> [] \<and> take 1 path \<noteq> ''/'' \<and> Host u \<noteq> [] then buf1 @ ''/'' else buf1);
          buf3 = (if buf2 = [] \<and> CHR '':'' \<in> set (fst (Cut path CHR ''/'')) then buf2 @ ''./''
                  else buf2);
          buf4 = buf3 @ path
      in if RawQuery u \<noteq> [] then buf4 @ ''?'' @ RawQuery u else buf4)"

subsection \<open>net/http: requests, cookies and the response writer\<close>

text \<open>
  What the program reads of an \<open>http.Request\<close>:
  \<^item> \<open>r_URL\<close>, the parsed request URL, and \<open>r_Host\<close>, the host the request was sent to
    (the \<open>Host\<close> header);
  \<^item> \<open>r_Header\<close>, copied into the event as it is;
  \<^item> \<open>r_PostForm\<close>, the parameters of a URL-encoded form body (empty for a request
    without one), which \<open>ParseForm\<close> places before those of the URL query;
  \<^item> \<open>r_MultipartForm\<close>, the values of the fields of a \<open>multipart/form-data\<close> body
    (empty for a request without one), which \<open>ParseMultipartForm\<close> appends after those
    of the URL query;
  \<^item> \<open>r_Cookies\<close>, the name and value of each cookie that the request's \<open>Cookie\<close>
    headers parse to, in order.
\<close>

type_synonym header = "(string \<times> string list) list"

record request =
  r_URL :: url
  r_Host :: string
  r_Header :: header
  r_PostForm :: Values
  r_MultipartForm :: Values
  r_Cookies :: "(string \<times> string) list"

text \<open>\<open>copyValues dst src\<close> appends, key by key, the values of \<open>src\<close> to those of \<open>dst\<close>.\<close>

definition copyValues :: "Values \<Rightarrow> Values \<Rightarrow> Values" where
  "copyValues dst src = fold (\<lambda>(k, vs) d. AList.update k (index_values d k @ vs) d) src dst"

text \<open>
  The form that \<open>FormValue\<close> builds on first use. \<open>ParseForm\<close> copies the parameters of
  a URL-encoded body, if there are any, and adds those of the URL query;
  \<open>ParseMultipartForm\<close> then appends the values of the multipart fields.
\<close>

definition Form :: "request \<Rightarrow> Values" where
  "Form r =
     (let newValues = fst (ParseQuery (RawQuery (r_URL r)));
          form = (if r_PostForm r \<noteq> [] then copyValues (copyValues [] (r_PostForm r)) newValues
                  else newValues)
      in copyValues form (r_MultipartForm r))"

text \<open>\<open>FormValue\<close> returns the first value of the key in that form, or the empty string.\<close>

definition FormValue :: "request \<Rightarrow> string \<Rightarrow> string" where
  "FormValue r key = (case index_values (Form r) key of [] \<Rightarrow> '''' | x # _ \<Rightarrow> x)"

datatype http_error = ErrNoCookie

text \<open>\<open>Request.Cookie\<close> returns the first cookie of that name, or \<open>ErrNoCookie\<close>.\<close>

definition Cookie :: "request \<Rightarrow> string \<Rightarrow> http_error + (string \<times> string)" where
  "Cookie r name =
     (case find (\<lambda>c. fst c = name) (r_Cookies r) of
        None \<Rightarrow> Inl ErrNoCookie
      | Some c \<Rightarrow> Inr c)"

text \<open>
  An \<open>http.Cookie\<close> as the handler builds it. \<open>MaxAge = 0\<close> means that no \<open>Max-Age\<close>
  attribute is given, and \<open>Expires = None\<close> is the zero time: no \<open>Expires\<close> attribute.
\<close>

record cookie =
  Name :: string
  Value :: string
  CookiePath :: string
  MaxAge :: int
  Expires :: "int option"

text \<open>
  The state of the \<open>http.ResponseWriter\<close> that the handler changes: the cookies added
  with \<open>http.SetCookie\<close> in order, and the \<open>Location\<close> header and status code that
  \<open>http.Redirect\<close> writes (its body is left out).
\<close>

record response =
  SetCookies :: "cookie list"
  Location :: "string option"
  StatusCode :: "nat option"

definition SetCookie :: "response \<Rightarrow> cookie \<Rightarrow> response" where
  "SetCookie w c = w\<lparr>SetCookies := SetCookies w @ [c]\<rparr>"

definition Redirect :: "response \<Rightarrow> request \<Rightarrow> string \<Rightarrow> nat \<Rightarrow> response" where
  "Redirect w r target code = w\<lparr>Location := Some target, StatusCode := Some code\<rparr>"

definition StatusFound :: nat where
  "StatusFound = 302"

subsection \<open>Constants\<close>

definition pkgGoDevRedirectCookie :: string where
  "pkgGoDevRedirectCookie = ''pkggodev-redirect''"

definition pkgGoDevRedirectParam :: string where
  "pkgGoDevRedirectParam = ''redirect''"

definition pkgGoDevRedirectOn :: string where
  "pkgGoDevRedirectOn = ''on''"

definition pkgGoDevRedirectOff :: string where
  "pkgGoDevRedirectOff = ''off''"

definition pkgGoDevHost :: string where
  "pkgGoDevHost = ''pkg.go.dev''"

subsection \<open>shouldRedirectToPkgGoDev and userReturningFromPkgGoDev\<close>

definition userReturningFromPkgGoDev :: "request \<Rightarrow> bool" where
  "userReturningFromPkgGoDev req \<longleftrightarrow> FormValue req ''utm_source'' = ''backtogodoc''"

definition shouldRedirectToPkgGoDev :: "request \<Rightarrow> bool" where
  "shouldRedirectToPkgGoDev req =
     (if prefix ''api'' (Host (r_URL req)) then False
      else let redirectParam = FormValue req pkgGoDevRedirectParam in
        if redirectParam = pkgGoDevRedirectOn \<or> redirectParam = pkgGoDevRedirectOff
        then redirectParam = pkgGoDevRedirectOn
        else (case Cookie req pkgGoDevRedirectCookie of
                Inl err \<Rightarrow> False
              | Inr cookie \<Rightarrow> snd cookie = pkgGoDevRedirectOn))"

subsection \<open>newGDDOEvent\<close>

record gddoEvent =
  ev_Host :: string
  ev_Path :: string
  ev_Status :: int
  ev_URL :: string
  ev_Header :: header
  ev_Latency :: int
  ev_IsRobot :: bool
  ev_UsePkgGoDev :: bool

definition newGDDOEvent :: "request \<Rightarrow> int \<Rightarrow> bool \<Rightarrow> int \<Rightarrow> gddoEvent" where
  "newGDDOEvent r latency isRobot status =
     (let targetURL0 = \<lparr>Scheme = ''https'', Host = Host (r_URL r), Path = Path (r_URL r),
                         RawQuery = RawQuery (r_URL r)\<rparr>;
          targetURL = (if Host targetURL0 = [] \<and> r_Host r \<noteq> []
                       then targetURL0\<lparr>Host := r_Host r\<rparr> else targetURL0)
      in \<lparr>ev_Host = Host targetURL,
          ev_Path = Path (r_URL r),
          ev_Status = status,
          ev_URL = URL_String targetURL,
          ev_Header = r_Header r,
          ev_Latency = latency,
          ev_IsRobot = isRobot,
          ev_UsePkgGoDev = shouldRedirectToPkgGoDev r\<rparr>)"

subsection \<open>pkgGoDevURL\<close>

definition pkgGoDevURL :: "url \<Rightarrow> url" where
  "pkgGoDevURL godocURL =
     (let u = \<lparr>Scheme = ''https'', Host = pkgGoDevHost, Path = [], RawQuery = []\<rparr>;
          q = [(''utm_source'', [''godoc''])]
      in
        if sublist ''/vendor/'' (Path godocURL) \<or> suffix ''/vendor'' (Path godocURL)
        then u\<lparr>Path := ''/'', RawQuery := Encode q\<rparr>
        else if Path godocURL = ''/-/go''
        then u\<lparr>Path := ''/std'', RawQuery := Encode (Add q ''tab'' ''packages'')\<rparr>
        else if Path godocURL = ''/-/about''
        then u\<lparr>Path := ''/about'', RawQuery := Encode q\<rparr>
        else if Path godocURL = ''/''
        then (let qparam = Get (Query godocURL) ''q'' in
                if qparam \<noteq> [] then u\<lparr>Path := ''/search'', RawQuery := Encode (Set q ''q'' qparam)\<rparr>
                else u\<lparr>Path := ''/'', RawQuery := Encode q\<rparr>)
        else if Path godocURL = ''/-/subrepo''
        then u\<lparr>Path := ''/search'', RawQuery := Encode (Set q ''q'' ''golang.org/x'')\<rparr>
        else
          u\<lparr>Path := Path godocURL,
            RawQuery := Encode
              (if has_key (Query godocURL) ''imports'' then Set q ''tab'' ''imports''
               else if has_key (Query godocURL) ''importers'' then Set q ''tab'' ''importedby''
               else Set q ''tab'' ''doc'')\<rparr>)"

subsection \<open>pkgGoDevRedirectHandler\<close>

text \<open>
  The wrapped handler \<open>f\<close> takes the response writer and the request and returns its
  error, if any, with the response writer as it leaves it. The wrapper returns \<open>nil\<close>
  after a redirect.
\<close>

definition pkgGoDevRedirectHandler ::
  "(response \<Rightarrow> request \<Rightarrow> 'e option \<times> response) \<Rightarrow> response \<Rightarrow> request \<Rightarrow> 'e option \<times> response"
where
  "pkgGoDevRedirectHandler f w r =
     (if userReturningFromPkgGoDev r then f w r
      else
        let redirectParam = FormValue r pkgGoDevRedirectParam;
            w1 = (if redirectParam = pkgGoDevRedirectOn
                  then SetCookie w \<lparr>Name = pkgGoDevRedirectCookie, Value = redirectParam,
                                     CookiePath = ''/'', MaxAge = 0, Expires = None\<rparr>
                  else w);
            w2 = (if redirectParam = pkgGoDevRedirectOff
                  then SetCookie w1 \<lparr>Name = pkgGoDevRedirectCookie, Value = [],
                                      CookiePath = ''/'', MaxAge = - 1, Expires = None\<rparr>
                  else w1)
        in if \<not> shouldRedirectToPkgGoDev r then f w2 r
           else (None, Redirect w2 r (URL_String (pkgGoDevURL (r_URL r))) StatusFound))"

subsection \<open>Example requests\<close>

text \<open>
  A request without a form body of either kind and without headers other than its
  cookies: the host of its parsed URL, the host it was sent to, its path, its raw query
  and its cookies.
\<close>

abbreviation plain_request :: "string \<Rightarrow> string \<Rightarrow> string \<Rightarrow> string \<Rightarrow> (string \<times> string) list \<Rightarrow> request" where
  "plain_request urlhost host path rawquery cookies \<equiv>
     \<lparr>r_URL = \<lparr>Scheme = [], Host = urlhost, Path = path, RawQuery = rawquery\<rparr>,
      r_Host = host, r_Header = [], r_PostForm = [], r_MultipartForm = [],
      r_Cookies = cookies\<rparr>"

text \<open>
  A response writer to which nothing has been written, and a wrapped handler that
  answers with status 200 and returns no error.
\<close>

abbreviation empty_response :: response where
  "empty_response \<equiv> \<lparr>SetCookies = [], Location = None, StatusCode = None\<rparr>"

definition servePage :: "response \<Rightarrow> request \<Rightarrow> string option \<times> response" where
  "servePage w r = (None, w\<lparr>StatusCode := Some 200\<rparr>)"

text \<open>A URL on pkg.go.dev, as \<open>pkgGoDevURL\<close> returns it.\<close>

abbreviation destination :: "string \<Rightarrow> string \<Rightarrow> url" where
  "destination path rawquery \<equiv>
     \<lparr>Scheme = ''https'', Host = ''pkg.go.dev'', Path = path, RawQuery = rawquery\<rparr>"

section \<open>Properties\<close>

subsection \<open>The extension loop\<close>

lemma final_segment_snoc:
  "final_segment (xs @ [c]) = (if c = CHR ''/'' then [] else final_segment xs @ [c])"
  by (simp add: final_segment_def)

lemma extension_of_snoc:
  "extension_of (s @ [c]) =
     (if c = CHR ''.'' then [c] else if CHR ''.'' \<in> set s then extension_of s @ [c] else [])"
  by (simp add: extension_of_def)

lemma extension_of_Nil: "extension_of [] = []"
  by (simp add: extension_of_def)

text \<open>
  The loop entered at any position of a path: whatever follows that position is carried
  along unread.
\<close>

lemma Ext_loop_append:
  "Ext_loop (xs @ ys) (length xs) =
     (if CHR ''.'' \<in> set (final_segment xs) then extension_of (final_segment xs) @ ys else [])"
proof (induction xs arbitrary: ys rule: rev_induct)
  case Nil
  show ?case by (simp add: final_segment_def)
next
  case (snoc c xs)
  have step: "Ext_loop ((xs @ [c]) @ ys) (length (xs @ [c])) =
      (if c = CHR ''/'' then [] else if c = CHR ''.'' then c # ys
       else Ext_loop (xs @ (c # ys)) (length xs))"
    by (simp add: nth_append)
  show ?case
    unfolding step snoc.IH [of "c # ys"]
    by (simp add: final_segment_snoc extension_of_snoc extension_of_Nil)
qed

lemma Ext_eq: "Ext path = extension_of (final_segment path)"
  using Ext_loop_append [of path "[]"]
  by (simp add: Ext_def extension_of_def)

subsection \<open>TeeFilter\<close>

text \<open>
  C1. For every path \<open>p\<close>, \<open>shouldTeeRequest p\<close> is false exactly when \<open>p\<close> begins with
  \<open>/_ah/\<close>, or the extension of the final segment of \<open>p\<close> is one of \<open>.css\<close>, \<open>.html\<close>,
  \<open>.js\<close>, \<open>.txt\<close>, \<open>.xml\<close>, or \<open>p\<close> is \<open>/-/bot\<close> or \<open>/-/refresh\<close>; it is true for
  every other path.
\<close>

theorem shouldTeeRequest_false_iff:
  "shouldTeeRequest p \<longleftrightarrow>
     \<not> (prefix ''/_ah/'' p
        \<or> extension_of (final_segment p) \<in> {''.css'', ''.html'', ''.js'', ''.txt'', ''.xml''}
        \<or> p = ''/-/bot'' \<or> p = ''/-/refresh'')"
  unfolding shouldTeeRequest_def Let_def Ext_eq
  by (simp add: index_bool_def doNotTeeExtsToPkgGoDev_def doNotTeeURLsToPkgGoDev_def)

theorem shouldTeeRequest_false_iff_witness:
  "shouldTeeRequest ''/github.com/foo/bar'' \<and> \<not> shouldTeeRequest ''/_ah/health''
   \<and> \<not> shouldTeeRequest ''/-/refresh'' \<and> \<not> shouldTeeRequest ''/static/app.js''
   \<and> shouldTeeRequest ''/static.js/app''"
  using shouldTeeRequest_false_iff [of "''/github.com/foo/bar''"]
    shouldTeeRequest_false_iff [of "''/_ah/health''"]
    shouldTeeRequest_false_iff [of "''/-/refresh''"]
    shouldTeeRequest_false_iff [of "''/static/app.js''"]
    shouldTeeRequest_false_iff [of "''/static.js/app''"]
  by (simp add: final_segment_def extension_of_def)

subsection \<open>RedirectResolver: the decision\<close>

lemma FormValue_cookies [simp]: "FormValue (req\<lparr>r_Cookies := cs\<rparr>) key = FormValue req key"
  by (simp add: FormValue_def Form_def Let_def)

lemma FormValue_host [simp]: "FormValue (req\<lparr>r_Host := h\<rparr>) key = FormValue req key"
  by (simp add: FormValue_def Form_def Let_def)

lemma find_holds: "find P xs = Some x \<Longrightarrow> P x"
  by (induction xs) (auto split: if_splits)

lemma Cookie_on_iff:
  "(case Cookie req name of Inl err \<Rightarrow> False | Inr cookie \<Rightarrow> snd cookie = v)
     \<longleftrightarrow> Cookie req name = Inr (name, v)"
  by (auto simp: Cookie_def prod_eq_iff split: option.splits dest: find_holds)

lemma shouldRedirect_unfold:
  "shouldRedirectToPkgGoDev req =
     (if prefix ''api'' (Host (r_URL req)) then False
      else if FormValue req ''redirect'' = ''on'' then True
      else if FormValue req ''redirect'' = ''off'' then False
      else Cookie req ''pkggodev-redirect'' = Inr (''pkggodev-redirect'', ''on''))"
  unfolding shouldRedirectToPkgGoDev_def Let_def Cookie_on_iff
  by (simp add: pkgGoDevRedirectParam_def pkgGoDevRedirectOn_def pkgGoDevRedirectOff_def
      pkgGoDevRedirectCookie_def)

text \<open>
  The order in which \<open>FormValue\<close> finds the values of a key: those of a URL-encoded
  form body, those of the URL query, those of a multipart form body. The body maps are
  Go maps, with one entry for each key.
\<close>

lemma index_values_update:
  "index_values (AList.update k v d) k' = (if k' = k then v else index_values d k')"
  by (simp add: index_values_def update_conv')

lemma index_values_absent: "k \<notin> fst ` set src \<Longrightarrow> index_values src k = []"
  using map_of_eq_None_iff [of src k] by (simp add: index_values_def)

lemma copyValues_index:
  "distinct (map fst src) \<Longrightarrow>
     index_values (copyValues d src) k = index_values d k @ index_values src k"
proof (induction src arbitrary: d)
  case Nil
  show ?case by (simp add: copyValues_def index_values_def)
next
  case (Cons e src)
  obtain k' vs where e: "e = (k', vs)" by (cases e)
  from Cons.prems e have fresh: "k' \<notin> fst ` set src" and rest: "distinct (map fst src)"
    by auto
  have step: "copyValues d (e # src) = copyValues (AList.update k' (index_values d k' @ vs) d) src"
    by (simp add: copyValues_def e)
  have here: "index_values (e # src) k = (if k = k' then vs else index_values src k)"
    by (simp add: index_values_def e)
  show ?case
    unfolding step Cons.IH [OF rest] here
    using index_values_absent [OF fresh]
    by (simp add: index_values_update)
qed

lemma Add_distinct: "distinct (map fst m) \<Longrightarrow> distinct (map fst (Add m k v))"
  by (simp add: Add_def distinct_update)

lemma parseQuery_distinct:
  "distinct (map fst m) \<Longrightarrow> distinct (map fst (fst (parseQuery m err query)))"
proof (induction m err query rule: parseQuery.induct)
  case (1 m err query)
  show ?case
  proof (cases "query = []")
    case True
    with "1.prems" show ?thesis
      by (subst parseQuery.simps) simp
  next
    case False
    obtain key query' where cut: "Cut query CHR ''&'' = (key, query')"
      by (cases "Cut query CHR ''&''")
    obtain key' val where cut': "Cut key CHR ''='' = (key', val)"
      by (cases "Cut key CHR ''=''")
    note IH = "1.IH" [OF False refl cut [symmetric]]
    show ?thesis
    proof (cases "CHR '';'' \<in> set key")
      case True
      with False cut IH(1) "1.prems" show ?thesis
        by (subst parseQuery.simps) simp
    next
      case semi: False
      show ?thesis
      proof (cases "key = []")
        case True
        with False cut semi IH(2) "1.prems" show ?thesis
          by (subst parseQuery.simps) simp
      next
        case key: False
        note IH' = IH(3-5) [OF semi key refl cut' [symmetric]]
        show ?thesis
          using False cut cut' semi key IH' "1.prems"
          by (subst parseQuery.simps) (auto simp: Add_distinct split: sum.splits)
      qed
    qed
  qed
qed

lemma Query_distinct: "distinct (map fst (Query u))"
  unfolding Query_def ParseQuery_def by (rule parseQuery_distinct) simp

lemma Form_index:
  assumes "distinct (map fst (r_PostForm r))" and "distinct (map fst (r_MultipartForm r))"
  shows "index_values (Form r) k
           = index_values (r_PostForm r) k @ index_values (Query (r_URL r)) k
               @ index_values (r_MultipartForm r) k"
proof -
  have q: "distinct (map fst (fst (ParseQuery (RawQuery (r_URL r)))))"
    using Query_distinct [of "r_URL r"] by (simp add: Query_def)
  have empty: "index_values [] k = []"
    by (simp add: index_values_def)
  show ?thesis
  proof (cases "r_PostForm r = []")
    case True
    then show ?thesis
      by (simp add: Form_def Let_def Query_def copyValues_index [OF assms(2)] empty)
  next
    case False
    then show ?thesis
      by (simp add: Form_def Let_def Query_def copyValues_index [OF assms(2)]
          copyValues_index [OF q] copyValues_index [OF assms(1)] empty)
  qed
qed


lemma FormValue_precedence:
  assumes "distinct (map fst (r_PostForm r))" and "distinct (map fst (r_MultipartForm r))"
  shows "FormValue r k
           = (case index_values (r_PostForm r) k @ index_values (Query (r_URL r)) k
                     @ index_values (r_MultipartForm r) k of
                [] \<Rightarrow> [] | x # _ \<Rightarrow> x)"
  by (simp add: FormValue_def Form_index [OF assms])

lemma FormValue_no_body:
  "r_PostForm r = [] \<Longrightarrow> r_MultipartForm r = [] \<Longrightarrow> FormValue r k = Get (Query (r_URL r)) k"
  by (simp add: FormValue_def Form_def Get_def Query_def Let_def copyValues_def)

text \<open>
  The override parameter is read with \<open>FormValue\<close>, not from the URL query alone: a
  request whose query says \<open>redirect=off\<close> and whose URL-encoded form body says
  \<open>redirect=on\<close>, on a host that does not begin with \<open>api\<close> and with no cookie, is
  redirected.
\<close>

theorem shouldRedirect_query_off_body_on_counterexample:
  "\<not> prefix ''api''
       (Host (r_URL \<lparr>r_URL = \<lparr>Scheme = [], Host = ''godoc.org'', Path = ''/some/pkg'',
                              RawQuery = ''redirect=off''\<rparr>,
                     r_Host = ''godoc.org'', r_Header = [],
                     r_PostForm = [(''redirect'', [''on''])], r_MultipartForm = [],
                     r_Cookies = []\<rparr>))
   \<and> Get (Query (r_URL \<lparr>r_URL = \<lparr>Scheme = [], Host = ''godoc.org'', Path = ''/some/pkg'',
                                   RawQuery = ''redirect=off''\<rparr>,
                          r_Host = ''godoc.org'', r_Header = [],
                          r_PostForm = [(''redirect'', [''on''])], r_MultipartForm = [],
                          r_Cookies = []\<rparr>)) ''redirect'' = ''off''
   \<and> shouldRedirectToPkgGoDev
        \<lparr>r_URL = \<lparr>Scheme = [], Host = ''godoc.org'', Path = ''/some/pkg'',
                   RawQuery = ''redirect=off''\<rparr>,
          r_Host = ''godoc.org'', r_Header = [],
          r_PostForm = [(''redirect'', [''on''])], r_MultipartForm = [],
          r_Cookies = []\<rparr>"
  by code_simp

text \<open>
  C2, amended. For a request whose URL host does not begin with \<open>api\<close>: if the override
  parameter \<open>redirect\<close>, as \<open>FormValue\<close> reads it, has the value \<open>on\<close> the request is
  redirected, and if it has the value \<open>off\<close> it is not, whatever cookies the request
  carries; with any other value, or none, the request is redirected exactly when the
  cookie \<open>pkggodev-redirect\<close> is present with the value \<open>on\<close>. What \<open>FormValue\<close> reads
  is the first value of \<open>redirect\<close> among those of a URL-encoded form body, then those
  of the URL query, then those of a multipart form body; for a request with no form body
  it is the first value of \<open>redirect\<close> in the URL query.
\<close>

theorem shouldRedirect_param_then_cookie:
  assumes "\<not> prefix ''api'' (Host (r_URL req))"
  shows "(FormValue req ''redirect'' = ''on'' \<longrightarrow> shouldRedirectToPkgGoDev (req\<lparr>r_Cookies := cs\<rparr>))
       \<and> (FormValue req ''redirect'' = ''off'' \<longrightarrow> \<not> shouldRedirectToPkgGoDev (req\<lparr>r_Cookies := cs\<rparr>))
       \<and> (FormValue req ''redirect'' \<noteq> ''on'' \<and> FormValue req ''redirect'' \<noteq> ''off'' \<longrightarrow>
            shouldRedirectToPkgGoDev req
              = (Cookie req ''pkggodev-redirect'' = Inr (''pkggodev-redirect'', ''on'')))
       \<and> (distinct (map fst (r_PostForm req)) \<and> distinct (map fst (r_MultipartForm req)) \<longrightarrow>
            FormValue req ''redirect''
              = (case index_values (r_PostForm req) ''redirect''
                        @ index_values (Query (r_URL req)) ''redirect''
                        @ index_values (r_MultipartForm req) ''redirect'' of
                   [] \<Rightarrow> [] | x # _ \<Rightarrow> x))
       \<and> (r_PostForm req = [] \<and> r_MultipartForm req = [] \<longrightarrow>
            FormValue req ''redirect'' = Get (Query (r_URL req)) ''redirect'')"
proof -
  have decision:
    "(FormValue req ''redirect'' = ''on'' \<longrightarrow> shouldRedirectToPkgGoDev (req\<lparr>r_Cookies := cs\<rparr>))
     \<and> (FormValue req ''redirect'' = ''off'' \<longrightarrow> \<not> shouldRedirectToPkgGoDev (req\<lparr>r_Cookies := cs\<rparr>))
     \<and> (FormValue req ''redirect'' \<noteq> ''on'' \<and> FormValue req ''redirect'' \<noteq> ''off'' \<longrightarrow>
          shouldRedirectToPkgGoDev req
            = (Cookie req ''pkggodev-redirect'' = Inr (''pkggodev-redirect'', ''on'')))"
    using assms by (simp add: shouldRedirect_unfold)
  show ?thesis
    using decision FormValue_precedence [of req "''redirect''"]
      FormValue_no_body [of req "''redirect''"]
    by blast
qed

theorem shouldRedirect_param_then_cookie_witness:
  "\<not> prefix ''api'' ''godoc.org''
   \<and> FormValue (plain_request ''godoc.org'' ''godoc.org'' ''/some/pkg'' ''redirect=on'' []) ''redirect'' = ''on''
   \<and> shouldRedirectToPkgGoDev
        (plain_request ''godoc.org'' ''godoc.org'' ''/some/pkg'' ''redirect=on'' [])
   \<and> FormValue (plain_request ''godoc.org'' ''godoc.org'' ''/some/pkg'' ''redirect=off'' []) ''redirect'' = ''off''
   \<and> \<not> shouldRedirectToPkgGoDev
        (plain_request ''godoc.org'' ''godoc.org'' ''/some/pkg'' ''redirect=off''
           [(''pkggodev-redirect'', ''on'')])
   \<and> FormValue (plain_request ''godoc.org'' ''godoc.org'' ''/some/pkg'' ''redirect=maybe'' []) ''redirect'' = ''maybe''
   \<and> shouldRedirectToPkgGoDev
        (plain_request ''godoc.org'' ''godoc.org'' ''/some/pkg'' ''redirect=maybe''
           [(''pkggodev-redirect'', ''on'')])
   \<and> \<not> shouldRedirectToPkgGoDev
        (plain_request ''godoc.org'' ''godoc.org'' ''/some/pkg'' ''redirect=maybe'' [])
   \<and> FormValue
        \<lparr>r_URL = \<lparr>Scheme = [], Host = ''godoc.org'', Path = ''/some/pkg'',
                   RawQuery = ''redirect=off''\<rparr>,
          r_Host = ''godoc.org'', r_Header = [],
          r_PostForm = [(''redirect'', [''on''])], r_MultipartForm = [],
          r_Cookies = []\<rparr> ''redirect'' = ''on''
   \<and> shouldRedirectToPkgGoDev
        \<lparr>r_URL = \<lparr>Scheme = [], Host = ''godoc.org'', Path = ''/some/pkg'',
                   RawQuery = ''redirect=off''\<rparr>,
          r_Host = ''godoc.org'', r_Header = [],
          r_PostForm = [(''redirect'', [''on''])], r_MultipartForm = [],
          r_Cookies = []\<rparr>
   \<and> FormValue
        \<lparr>r_URL = \<lparr>Scheme = [], Host = ''godoc.org'', Path = ''/some/pkg'',
                   RawQuery = ''redirect=off''\<rparr>,
          r_Host = ''godoc.org'', r_Header = [],
          r_PostForm = [], r_MultipartForm = [(''redirect'', [''on''])],
          r_Cookies = [(''pkggodev-redirect'', ''on'')]\<rparr> ''redirect'' = ''off''
   \<and> \<not> shouldRedirectToPkgGoDev
        \<lparr>r_URL = \<lparr>Scheme = [], Host = ''godoc.org'', Path = ''/some/pkg'',
                   RawQuery = ''redirect=off''\<rparr>,
          r_Host = ''godoc.org'', r_Header = [],
          r_PostForm = [], r_MultipartForm = [(''redirect'', [''on''])],
          r_Cookies = [(''pkggodev-redirect'', ''on'')]\<rparr>"
proof -
  let ?body = "\<lparr>r_URL = \<lparr>Scheme = [], Host = ''godoc.org'', Path = ''/some/pkg'',
                   RawQuery = ''redirect=off''\<rparr>,
          r_Host = ''godoc.org'', r_Header = [],
          r_PostForm = [(''redirect'', [''on''])], r_MultipartForm = [],
          r_Cookies = []\<rparr>"
  let ?multi = "\<lparr>r_URL = \<lparr>Scheme = [], Host = ''godoc.org'', Path = ''/some/pkg'',
                   RawQuery = ''redirect=off''\<rparr>,
          r_Host = ''godoc.org'', r_Header = [],
          r_PostForm = [], r_MultipartForm = [(''redirect'', [''on''])],
          r_Cookies = [(''pkggodev-redirect'', ''on'')]\<rparr>"
  have api: "\<not> prefix ''api'' ''godoc.org''"
    by simp
  have on: "FormValue (plain_request ''godoc.org'' ''godoc.org'' ''/some/pkg'' ''redirect=on'' []) ''redirect'' = ''on''"
    by code_simp
  have off: "FormValue (plain_request ''godoc.org'' ''godoc.org'' ''/some/pkg'' ''redirect=off'' []) ''redirect'' = ''off''"
    by code_simp
  have other: "FormValue (plain_request ''godoc.org'' ''godoc.org'' ''/some/pkg'' ''redirect=maybe'' []) ''redirect'' = ''maybe''"
    by code_simp
  have query: "index_values (Query (r_URL ?body)) ''redirect'' = [''off'']"
    by code_simp
  have plain: "shouldRedirectToPkgGoDev
        (plain_request ''godoc.org'' ''godoc.org'' ''/some/pkg'' ''redirect=on'' [])
     \<and> \<not> shouldRedirectToPkgGoDev
        (plain_request ''godoc.org'' ''godoc.org'' ''/some/pkg'' ''redirect=off''
           [(''pkggodev-redirect'', ''on'')])
     \<and> shouldRedirectToPkgGoDev
        (plain_request ''godoc.org'' ''godoc.org'' ''/some/pkg'' ''redirect=maybe''
           [(''pkggodev-redirect'', ''on'')])
     \<and> \<not> shouldRedirectToPkgGoDev
        (plain_request ''godoc.org'' ''godoc.org'' ''/some/pkg'' ''redirect=maybe'' [])"
    using api on off other
      shouldRedirect_param_then_cookie
        [of "plain_request ''godoc.org'' ''godoc.org'' ''/some/pkg'' ''redirect=on'' []" "[]"]
      shouldRedirect_param_then_cookie
        [of "plain_request ''godoc.org'' ''godoc.org'' ''/some/pkg'' ''redirect=off'' []"
            "[(''pkggodev-redirect'', ''on'')]"]
      shouldRedirect_param_then_cookie
        [of "plain_request ''godoc.org'' ''godoc.org'' ''/some/pkg'' ''redirect=maybe''
               [(''pkggodev-redirect'', ''on'')]" "[]"]
      shouldRedirect_param_then_cookie
        [of "plain_request ''godoc.org'' ''godoc.org'' ''/some/pkg'' ''redirect=maybe'' []" "[]"]
    by (simp add: Cookie_def FormValue_def Form_def)
  have body: "FormValue ?body ''redirect'' = ''on'' \<and> shouldRedirectToPkgGoDev ?body"
    using api query shouldRedirect_param_then_cookie [of ?body "[]"]
    by (simp add: index_values_def)
  have multi: "FormValue ?multi ''redirect'' = ''off'' \<and> \<not> shouldRedirectToPkgGoDev ?multi"
    using api query shouldRedirect_param_then_cookie [of ?multi "[(''pkggodev-redirect'', ''on'')]"]
    by (simp add: index_values_def)
  from api on off other plain body multi show ?thesis
    by blast
qed

text \<open>
  C7. A request whose URL host begins with \<open>api\<close> is never redirected, whatever its
  override parameter and cookies are.
\<close>

theorem shouldRedirect_api_host:
  "prefix ''api'' (Host (r_URL req)) \<Longrightarrow> \<not> shouldRedirectToPkgGoDev req"
  by (simp add: shouldRedirectToPkgGoDev_def)

theorem shouldRedirect_api_host_witness:
  "prefix ''api'' ''api.godoc.org''
   \<and> \<not> shouldRedirectToPkgGoDev
        (plain_request ''api.godoc.org'' ''api.godoc.org'' ''/packages'' ''redirect=on''
           [(''pkggodev-redirect'', ''on'')])"
  using shouldRedirect_api_host
    [of "plain_request ''api.godoc.org'' ''api.godoc.org'' ''/packages'' ''redirect=on''
           [(''pkggodev-redirect'', ''on'')]"]
  by simp

lemma URL_String_https: "Scheme u = ''https'' \<Longrightarrow> prefix ''https:'' (URL_String u)"
  by (simp add: URL_String_def Let_def)

text \<open>
  C8. The URL of the event is printed from a URL with scheme \<open>https\<close>, the host of the
  parsed request URL when that is not empty and else the host the request was sent to, and
  the request's path and query; the event's host is that same host; and the flag
  \<open>UsePkgGoDev\<close> is \<open>shouldRedirectToPkgGoDev\<close> of the same request, also for a request
  that carries the marker of a user returning from pkg.go.dev.
\<close>

theorem newGDDOEvent_url_and_flag:
  "ev_URL (newGDDOEvent r latency isRobot status)
     = URL_String \<lparr>Scheme = ''https'',
                     Host = (if Host (r_URL r) \<noteq> [] then Host (r_URL r) else r_Host r),
                     Path = Path (r_URL r), RawQuery = RawQuery (r_URL r)\<rparr>
   \<and> prefix ''https:'' (ev_URL (newGDDOEvent r latency isRobot status))
   \<and> ev_Host (newGDDOEvent r latency isRobot status)
       = (if Host (r_URL r) \<noteq> [] then Host (r_URL r) else r_Host r)
   \<and> ev_UsePkgGoDev (newGDDOEvent r latency isRobot status) = shouldRedirectToPkgGoDev r"
  by (simp add: newGDDOEvent_def Let_def URL_String_https)

lemma shouldRedirect_r_Host:
  "shouldRedirectToPkgGoDev (req\<lparr>r_Host := h\<rparr>) = shouldRedirectToPkgGoDev req"
  by (simp add: shouldRedirect_unfold Cookie_def)

lemma newGDDOEvent_Host:
  "ev_Host (newGDDOEvent r latency isRobot status)
     = (if Host (r_URL r) \<noteq> [] then Host (r_URL r) else r_Host r)"
  by (simp add: newGDDOEvent_def Let_def)

theorem newGDDOEvent_url_and_flag_witness:
  "ev_URL (newGDDOEvent
      (plain_request [] ''godoc.org'' ''/some/pkg'' ''utm_source=backtogodoc&redirect=on'' [])
      0 False 200) = ''https://godoc.org/some/pkg?utm_source=backtogodoc&redirect=on''
   \<and> userReturningFromPkgGoDev
        (plain_request [] ''godoc.org'' ''/some/pkg'' ''utm_source=backtogodoc&redirect=on'' [])
   \<and> ev_UsePkgGoDev (newGDDOEvent
        (plain_request [] ''godoc.org'' ''/some/pkg'' ''utm_source=backtogodoc&redirect=on'' [])
        0 False 200)"
proof -
  have ret: "userReturningFromPkgGoDev
        (plain_request [] ''godoc.org'' ''/some/pkg'' ''utm_source=backtogodoc&redirect=on'' [])"
    by code_simp
  have red: "shouldRedirectToPkgGoDev
        (plain_request [] ''godoc.org'' ''/some/pkg'' ''utm_source=backtogodoc&redirect=on'' [])"
    by code_simp
  have str: "URL_String \<lparr>Scheme = ''https'', Host = ''godoc.org'', Path = ''/some/pkg'',
                RawQuery = ''utm_source=backtogodoc&redirect=on''\<rparr>
             = ''https://godoc.org/some/pkg?utm_source=backtogodoc&redirect=on''"
    by code_simp
  show ?thesis
    using ret red str newGDDOEvent_url_and_flag
      [of "plain_request [] ''godoc.org'' ''/some/pkg'' ''utm_source=backtogodoc&redirect=on'' []"
          0 False 200]
    by simp
qed

text \<open>
  C10. \<open>shouldRedirectToPkgGoDev\<close> does not read the host the request was sent to: changing
  it changes nothing. So a request whose parsed URL has no host gets the decision of a
  request that is not for the API, even when it was sent to a host that begins with
  \<open>api\<close>, while \<open>newGDDOEvent\<close> records that very host.
\<close>

theorem shouldRedirect_ignores_request_host:
  "shouldRedirectToPkgGoDev (req\<lparr>r_Host := h\<rparr>) = shouldRedirectToPkgGoDev req
   \<and> (Host (r_URL req) = [] \<longrightarrow>
        shouldRedirectToPkgGoDev (req\<lparr>r_Host := h\<rparr>)
          = (if FormValue req ''redirect'' = ''on'' then True
             else if FormValue req ''redirect'' = ''off'' then False
             else Cookie req ''pkggodev-redirect'' = Inr (''pkggodev-redirect'', ''on''))
        \<and> ev_Host (newGDDOEvent (req\<lparr>r_Host := h\<rparr>) latency isRobot status) = h)"
proof -
  have "Host (r_URL req) = [] \<Longrightarrow> shouldRedirectToPkgGoDev req
          = (if FormValue req ''redirect'' = ''on'' then True
             else if FormValue req ''redirect'' = ''off'' then False
             else Cookie req ''pkggodev-redirect'' = Inr (''pkggodev-redirect'', ''on''))"
    by (simp add: shouldRedirect_unfold)
  then show ?thesis
    by (simp add: shouldRedirect_r_Host newGDDOEvent_Host)
qed

theorem shouldRedirect_ignores_request_host_witness:
  "shouldRedirectToPkgGoDev (plain_request [] ''api.godoc.org'' ''/some/pkg'' ''redirect=on'' [])
   \<and> shouldRedirectToPkgGoDev (plain_request [] ''godoc.org'' ''/some/pkg'' ''redirect=on'' [])
   \<and> ev_Host (newGDDOEvent
         (plain_request [] ''api.godoc.org'' ''/some/pkg'' ''redirect=on'' []) 0 False 200)
       = ''api.godoc.org''"
proof -
  have on: "FormValue (plain_request [] ''godoc.org'' ''/some/pkg'' ''redirect=on'' []) ''redirect'' = ''on''"
    by code_simp
  show ?thesis
    using on shouldRedirect_ignores_request_host
      [where req = "plain_request [] ''godoc.org'' ''/some/pkg'' ''redirect=on'' []"
         and h = "''api.godoc.org''" and latency = 0 and isRobot = False and status = 200]
    by auto
qed

subsection \<open>Encoding the query of the destination\<close>

lemma QueryEscape_utm [simp]: "QueryEscape ''utm_source'' = ''utm_source''"
  by code_simp
lemma QueryEscape_godoc [simp]: "QueryEscape ''godoc'' = ''godoc''"
  by code_simp
lemma QueryEscape_tab [simp]: "QueryEscape ''tab'' = ''tab''"
  by code_simp
lemma QueryEscape_q [simp]: "QueryEscape ''q'' = ''q''"
  by code_simp

lemma Encode_attribution: "Encode [(''utm_source'', [''godoc''])] = ''utm_source=godoc''"
  by (simp add: Encode_def write_pair_def index_values_def)

lemma Encode_Set_q:
  "Encode (Set [(''utm_source'', [''godoc''])] ''q'' v) = ''q='' @ QueryEscape v @ ''&utm_source=godoc''"
  by (simp add: Encode_def Set_def write_pair_def index_values_def)

lemma Encode_Set_tab:
  "Encode (Set [(''utm_source'', [''godoc''])] ''tab'' v) = ''tab='' @ QueryEscape v @ ''&utm_source=godoc''"
  by (simp add: Encode_def Set_def write_pair_def index_values_def)

lemma Encode_Add_tab:
  "Encode (Add [(''utm_source'', [''godoc''])] ''tab'' v) = ''tab='' @ QueryEscape v @ ''&utm_source=godoc''"
  by (simp add: Encode_def Add_def write_pair_def index_values_def)


subsection \<open>Escaped query components parse back\<close>

lemma upperhex_nth_mem: "d < 16 \<Longrightarrow> upperhex ! d \<in> set upperhex"
  by (rule nth_mem) (simp add: upperhex_def)

lemma upperhex_ishex: "h \<in> set upperhex \<Longrightarrow> ishex h"
  by (auto simp: upperhex_def ishex_def between_def)

lemma upperhex_not_separator:
  "h \<in> set upperhex \<Longrightarrow> h \<noteq> CHR ''&'' \<and> h \<noteq> CHR '';'' \<and> h \<noteq> CHR ''=''"
  by (auto simp: upperhex_def)

lemma small_cases:
  "d < 16 \<Longrightarrow> d = 0 \<or> d = 1 \<or> d = 2 \<or> d = 3 \<or> d = 4 \<or> d = 5 \<or> d = 6 \<or> d = 7 \<or> d = 8
     \<or> d = 9 \<or> d = 10 \<or> d = 11 \<or> d = 12 \<or> d = 13 \<or> d = 14 \<or> d = (15::nat)"
  by arith

lemma unhex_upperhex: "d < 16 \<Longrightarrow> unhex (upperhex ! d) = d"
  using small_cases [of d]
  by (auto simp: upperhex_def unhex_def between_def)

lemma unescaped_plain:
  "\<not> shouldEscape c encodeQueryComponent \<Longrightarrow>
     c \<noteq> CHR ''&'' \<and> c \<noteq> CHR '';'' \<and> c \<noteq> CHR ''='' \<and> c \<noteq> CHR ''%'' \<and> c \<noteq> CHR ''+''"
  by (auto simp: shouldEscape_def isalnum_def between_def less_eq_char_def split: if_splits)

lemma of_char_div_lt: "of_char (c::char) div 16 < (16::nat)"
proof -
  have "of_char c < (256::nat)" by (rule nat_of_char_less_256)
  then show ?thesis by arith
qed

lemma QueryEscape_no_separator:
  "CHR ''&'' \<notin> set (QueryEscape s) \<and> CHR '';'' \<notin> set (QueryEscape s)
   \<and> CHR ''='' \<notin> set (QueryEscape s)"
  unfolding QueryEscape_def
proof (induction s)
  case Nil
  show ?case by simp
next
  case (Cons c s)
  have hi: "upperhex ! (of_char c div 16) \<in> set upperhex"
    by (rule upperhex_nth_mem) (rule of_char_div_lt)
  have lo: "upperhex ! (of_char c mod 16) \<in> set upperhex"
    by (rule upperhex_nth_mem) simp
  show ?case
    using Cons.IH upperhex_not_separator [OF hi] upperhex_not_separator [OF lo]
      unescaped_plain [of c]
    by auto
qed

lemma QueryUnescape_QueryEscape: "QueryUnescape (QueryEscape s) = Inr s"
  unfolding QueryEscape_def
proof (induction s)
  case Nil
  show ?case by simp
next
  case (Cons c s)
  have hi: "of_char c div 16 < (16::nat)" by (rule of_char_div_lt)
  have lo: "of_char c mod 16 < (16::nat)" by simp
  have decode: "char_of (unhex (upperhex ! (of_char c div 16)) * 16
                 + unhex (upperhex ! (of_char c mod 16))) = c"
    by (simp add: unhex_upperhex [OF hi] unhex_upperhex [OF lo])
  have hex: "ishex (upperhex ! (of_char c div 16))" "ishex (upperhex ! (of_char c mod 16))"
    using upperhex_ishex upperhex_nth_mem hi lo by blast+
  show ?case
  proof (cases "shouldEscape c encodeQueryComponent")
    case True
    then show ?thesis
      using Cons.IH decode hex by simp
  next
    case False
    then show ?thesis
      using Cons.IH unescaped_plain [OF False] by simp
  qed
qed

subsection \<open>Parsing the query of the destination\<close>

lemma Cut_at: "sep \<notin> set a \<Longrightarrow> Cut (a @ sep # b) sep = (a, b)"
  by (induction a) (auto simp: Cut_def)

lemma Cut_absent: "sep \<notin> set a \<Longrightarrow> Cut a sep = (a, [])"
  by (induction a) (auto simp: Cut_def)

lemma parseQuery_pair_more:
  assumes "CHR ''&'' \<notin> set k" "CHR '';'' \<notin> set k" "CHR ''='' \<notin> set k"
    and "CHR ''&'' \<notin> set e" "CHR '';'' \<notin> set e"
    and "QueryUnescape k = Inr k'" "QueryUnescape e = Inr v"
  shows "parseQuery m err (k @ CHR ''='' # e @ CHR ''&'' # rest) = parseQuery (Add m k' v) err rest"
proof -
  have cut1: "Cut ((k @ CHR ''='' # e) @ CHR ''&'' # rest) CHR ''&'' = (k @ CHR ''='' # e, rest)"
    by (rule Cut_at) (use assms in simp)
  have cut2: "Cut (k @ CHR ''='' # e) CHR ''='' = (k, e)"
    by (rule Cut_at) (use assms in simp)
  show ?thesis
    by (subst parseQuery.simps) (use cut1 cut2 assms in simp)
qed

lemma parseQuery_pair_last:
  assumes "CHR ''&'' \<notin> set k" "CHR '';'' \<notin> set k" "CHR ''='' \<notin> set k"
    and "CHR ''&'' \<notin> set e" "CHR '';'' \<notin> set e"
    and "QueryUnescape k = Inr k'" "QueryUnescape e = Inr v"
  shows "parseQuery m err (k @ CHR ''='' # e) = (Add m k' v, err)"
proof -
  have cut1: "Cut (k @ CHR ''='' # e) CHR ''&'' = (k @ CHR ''='' # e, [])"
    by (rule Cut_absent) (use assms in simp)
  have cut2: "Cut (k @ CHR ''='' # e) CHR ''='' = (k, e)"
    by (rule Cut_at) (use assms in simp)
  have stop: "\<And>m' err'. parseQuery m' err' [] = (m', err')"
    by (subst parseQuery.simps) simp
  show ?thesis
    by (subst parseQuery.simps) (use cut1 cut2 stop assms in simp)
qed

lemma ParseQuery_attribution:
  "ParseQuery ''utm_source=godoc'' = ([(''utm_source'', [''godoc''])], None)"
  by code_simp

lemma ParseQuery_with_attribution:
  assumes "k = ''q'' \<or> k = ''tab''"
  shows "ParseQuery (k @ ''='' @ QueryEscape v @ ''&utm_source=godoc'')
           = ([(k, [v]), (''utm_source'', [''godoc''])], None)"
proof -
  have k: "CHR ''&'' \<notin> set k" "CHR '';'' \<notin> set k" "CHR ''='' \<notin> set k" "QueryUnescape k = Inr k"
    using assms by auto
  have e: "CHR ''&'' \<notin> set (QueryEscape v)" "CHR '';'' \<notin> set (QueryEscape v)"
    using QueryEscape_no_separator [of v] by simp_all
  have first: "parseQuery [] None (k @ CHR ''='' # QueryEscape v @ CHR ''&'' # ''utm_source=godoc'')
          = parseQuery (Add [] k v) None ''utm_source=godoc''"
    using parseQuery_pair_more [OF k(1-3) e k(4) QueryUnescape_QueryEscape] by simp
  have second: "parseQuery (Add [] k v) None (''utm_source'' @ CHR ''='' # ''godoc'')
          = (Add (Add [] k v) ''utm_source'' ''godoc'', None)"
    by (rule parseQuery_pair_last) simp_all
  have "Add (Add [] k v) ''utm_source'' ''godoc'' = [(k, [v]), (''utm_source'', [''godoc''])]"
    using assms by (auto simp: Add_def index_values_def)
  with first second show ?thesis
    by (simp add: ParseQuery_def)
qed

subsection \<open>RedirectResolver: the destination\<close>

lemma Query_Path [simp]: "Query (u\<lparr>Path := p\<rparr>) = Query u"
  by (simp add: Query_def)

lemma pkgGoDevURL_fixed:
  "Scheme (pkgGoDevURL u) = ''https'' \<and> Host (pkgGoDevURL u) = ''pkg.go.dev''"
  by (simp add: pkgGoDevURL_def Let_def pkgGoDevHost_def)

lemma pkgGoDevURL_RawQuery_cases:
  assumes "P ''utm_source=godoc''"
    and "\<And>v. P (''q='' @ QueryEscape v @ ''&utm_source=godoc'')"
    and "\<And>v. P (''tab='' @ QueryEscape v @ ''&utm_source=godoc'')"
  shows "P (RawQuery (pkgGoDevURL u))"
  unfolding pkgGoDevURL_def Let_def
  using assms
  by (simp add: Encode_attribution Encode_Set_q Encode_Set_tab Encode_Add_tab)

lemma escape_pkgGoDevHost: "escape ''pkg.go.dev'' encodeHost = ''pkg.go.dev''"
  by code_simp

lemma URL_String_pkgGoDev:
  "Scheme u = ''https'' \<Longrightarrow> Host u = ''pkg.go.dev'' \<Longrightarrow> prefix ''https://pkg.go.dev'' (URL_String u)"
  by (simp add: URL_String_def Let_def escape_pkgGoDevHost del: escape.simps)

text \<open>
  C3. \<open>pkgGoDevURL\<close> is a total function with no error result: for every URL it returns
  a URL with scheme \<open>https\<close> and host \<open>pkg.go.dev\<close>, printed as
  \<open>https://pkg.go.dev...\<close>, whose query ends with \<open>utm_source=godoc\<close> and parses to a
  form in which \<open>utm_source\<close> has the single value \<open>godoc\<close>, in every branch.
\<close>

theorem pkgGoDevURL_total:
  "Scheme (pkgGoDevURL u) = ''https'' \<and> Host (pkgGoDevURL u) = ''pkg.go.dev''
   \<and> prefix ''https://pkg.go.dev'' (URL_String (pkgGoDevURL u))
   \<and> suffix ''utm_source=godoc'' (RawQuery (pkgGoDevURL u))
   \<and> index_values (Query (pkgGoDevURL u)) ''utm_source'' = [''godoc'']"
proof -
  have parsed: "index_values (fst (ParseQuery (RawQuery (pkgGoDevURL u)))) ''utm_source'' = [''godoc'']"
  proof (rule pkgGoDevURL_RawQuery_cases)
    show "index_values (fst (ParseQuery ''utm_source=godoc'')) ''utm_source'' = [''godoc'']"
      by (simp add: ParseQuery_attribution index_values_def)
    show "index_values (fst (ParseQuery (''q='' @ QueryEscape v @ ''&utm_source=godoc'')))
            ''utm_source'' = [''godoc'']" for v
      using ParseQuery_with_attribution [of "''q''" v] by (simp add: index_values_def)
    show "index_values (fst (ParseQuery (''tab='' @ QueryEscape v @ ''&utm_source=godoc'')))
            ''utm_source'' = [''godoc'']" for v
      using ParseQuery_with_attribution [of "''tab''" v] by (simp add: index_values_def)
  qed
  have ends: "suffix ''utm_source=godoc'' (RawQuery (pkgGoDevURL u))"
    by (rule pkgGoDevURL_RawQuery_cases) (simp_all add: suffix_def)
  show ?thesis
    using parsed ends pkgGoDevURL_fixed [of u] URL_String_pkgGoDev [of "pkgGoDevURL u"]
    by (simp add: Query_def)
qed

theorem pkgGoDevURL_total_witness:
  "URL_String (pkgGoDevURL \<lparr>Scheme = [], Host = [], Path = ''/-/subrepo'', RawQuery = ''%zz;''\<rparr>)
     = ''https://pkg.go.dev/search?q=golang.org%2Fx&utm_source=godoc''
   \<and> Scheme (pkgGoDevURL \<lparr>Scheme = [], Host = [], Path = ''/-/subrepo'', RawQuery = ''%zz;''\<rparr>)
       = ''https''
   \<and> Host (pkgGoDevURL \<lparr>Scheme = [], Host = [], Path = ''/-/subrepo'', RawQuery = ''%zz;''\<rparr>)
       = ''pkg.go.dev''
   \<and> index_values
         (Query (pkgGoDevURL \<lparr>Scheme = [], Host = [], Path = ''/-/subrepo'', RawQuery = ''%zz;''\<rparr>))
         ''utm_source'' = [''godoc'']"
proof -
  have printed:
    "URL_String (pkgGoDevURL \<lparr>Scheme = [], Host = [], Path = ''/-/subrepo'', RawQuery = ''%zz;''\<rparr>)
       = ''https://pkg.go.dev/search?q=golang.org%2Fx&utm_source=godoc''"
    by code_simp
  show ?thesis
    using printed
      pkgGoDevURL_total [of "\<lparr>Scheme = [], Host = [], Path = ''/-/subrepo'', RawQuery = ''%zz;''\<rparr>"]
    by blast
qed

lemma QueryEscape_tabs:
  "QueryEscape ''packages'' = ''packages''" "QueryEscape ''imports'' = ''imports''"
  "QueryEscape ''importedby'' = ''importedby''" "QueryEscape ''doc'' = ''doc''"
  "QueryEscape ''json'' = ''json''"
  by code_simp+

lemma not_vendor_examples:
  "\<not> sublist ''/vendor/'' ''/-/go''" "\<not> suffix ''/vendor'' ''/-/go''"
  "\<not> sublist ''/vendor/'' ''/-/about''" "\<not> suffix ''/vendor'' ''/-/about''"
  "\<not> sublist ''/vendor/'' ''/''" "\<not> suffix ''/vendor'' ''/''"
  "\<not> sublist ''/vendor/'' ''/some/pkg''" "\<not> suffix ''/vendor'' ''/some/pkg''"
  by code_simp+

lemma pkgGoDevURL_vendor:
  "sublist ''/vendor/'' (Path u) \<or> suffix ''/vendor'' (Path u) \<Longrightarrow>
     pkgGoDevURL u = destination ''/'' ''utm_source=godoc''"
  by (simp add: pkgGoDevURL_def Let_def Encode_attribution pkgGoDevHost_def)

lemma pkgGoDevURL_go:
  "pkgGoDevURL (u\<lparr>Path := ''/-/go''\<rparr>) = destination ''/std'' ''tab=packages&utm_source=godoc''"
  by (simp add: pkgGoDevURL_def Let_def Encode_Add_tab QueryEscape_tabs pkgGoDevHost_def
      not_vendor_examples)

lemma pkgGoDevURL_about:
  "pkgGoDevURL (u\<lparr>Path := ''/-/about''\<rparr>) = destination ''/about'' ''utm_source=godoc''"
  by (simp add: pkgGoDevURL_def Let_def Encode_attribution pkgGoDevHost_def not_vendor_examples)

lemma pkgGoDevURL_root_search:
  "Get (Query u) ''q'' = ''json'' \<Longrightarrow>
     pkgGoDevURL (u\<lparr>Path := ''/''\<rparr>) = destination ''/search'' ''q=json&utm_source=godoc''"
  by (simp add: pkgGoDevURL_def Let_def Encode_Set_q QueryEscape_tabs pkgGoDevHost_def
      not_vendor_examples)

lemma pkgGoDevURL_default:
  assumes "\<not> sublist ''/vendor/'' (Path u)" "\<not> suffix ''/vendor'' (Path u)"
    and "Path u \<noteq> ''/-/go''" "Path u \<noteq> ''/-/about''" "Path u \<noteq> ''/''" "Path u \<noteq> ''/-/subrepo''"
  shows "pkgGoDevURL u = destination (Path u)
           (''tab='' @ (if has_key (Query u) ''imports'' then ''imports''
                        else if has_key (Query u) ''importers'' then ''importedby''
                        else ''doc'') @ ''&utm_source=godoc'')"
  using assms
  by (simp add: pkgGoDevURL_def Let_def Encode_Set_tab QueryEscape_tabs pkgGoDevHost_def)


lemma ParseQuery_empty: "ParseQuery [] = ([], None)"
  by code_simp

lemma pkgGoDevURL_some_pkg:
  "pkgGoDevURL (u\<lparr>Path := ''/some/pkg''\<rparr>) = destination ''/some/pkg''
     (''tab='' @ (if has_key (Query u) ''imports'' then ''imports''
                  else if has_key (Query u) ''importers'' then ''importedby''
                  else ''doc'') @ ''&utm_source=godoc'')"
  using pkgGoDevURL_default [of "u\<lparr>Path := ''/some/pkg''\<rparr>"]
  by (simp add: not_vendor_examples)

text \<open>
  C4. The concrete cases of the mapping: \<open>/-/go\<close> goes to \<open>/std\<close> with \<open>tab=packages\<close>,
  \<open>/-/about\<close> to \<open>/about\<close>, \<open>/\<close> with the query parameter \<open>q=json\<close> to \<open>/search\<close> with
  \<open>q=json\<close>, every path that contains \<open>/vendor/\<close> or ends in \<open>/vendor\<close> to \<open>/\<close> with the
  attribution parameter alone, and \<open>/some/pkg\<close> to the same path with \<open>tab=imports\<close> when
  the query has an \<open>imports\<close> parameter, with \<open>tab=importedby\<close> when it has an
  \<open>importers\<close> parameter and no \<open>imports\<close> parameter, and with \<open>tab=doc\<close> when there is no query.
\<close>

theorem pkgGoDevURL_concrete_cases:
  "pkgGoDevURL (u\<lparr>Path := ''/-/go''\<rparr>) = destination ''/std'' ''tab=packages&utm_source=godoc''
   \<and> pkgGoDevURL (u\<lparr>Path := ''/-/about''\<rparr>) = destination ''/about'' ''utm_source=godoc''
   \<and> (Get (Query u) ''q'' = ''json'' \<longrightarrow>
        pkgGoDevURL (u\<lparr>Path := ''/''\<rparr>) = destination ''/search'' ''q=json&utm_source=godoc'')
   \<and> (sublist ''/vendor/'' (Path u) \<or> suffix ''/vendor'' (Path u) \<longrightarrow>
        pkgGoDevURL u = destination ''/'' ''utm_source=godoc'')
   \<and> (has_key (Query u) ''imports'' \<longrightarrow>
        pkgGoDevURL (u\<lparr>Path := ''/some/pkg''\<rparr>)
          = destination ''/some/pkg'' ''tab=imports&utm_source=godoc'')
   \<and> (\<not> has_key (Query u) ''imports'' \<and> has_key (Query u) ''importers'' \<longrightarrow>
        pkgGoDevURL (u\<lparr>Path := ''/some/pkg''\<rparr>)
          = destination ''/some/pkg'' ''tab=importedby&utm_source=godoc'')
   \<and> (RawQuery u = [] \<longrightarrow>
        pkgGoDevURL (u\<lparr>Path := ''/some/pkg''\<rparr>)
          = destination ''/some/pkg'' ''tab=doc&utm_source=godoc'')"
proof -
  have none: "RawQuery u = [] \<Longrightarrow> \<not> has_key (Query u) ''imports'' \<and> \<not> has_key (Query u) ''importers''"
    by (simp add: Query_def ParseQuery_empty has_key_def)
  show ?thesis
    using none pkgGoDevURL_vendor [of u] pkgGoDevURL_root_search [of u]
    by (simp add: pkgGoDevURL_go pkgGoDevURL_about pkgGoDevURL_some_pkg)
qed

theorem pkgGoDevURL_concrete_cases_witness:
  "pkgGoDevURL \<lparr>Scheme = [], Host = [], Path = ''/-/go'', RawQuery = []\<rparr>
     = destination ''/std'' ''tab=packages&utm_source=godoc''
   \<and> pkgGoDevURL \<lparr>Scheme = [], Host = [], Path = ''/-/about'', RawQuery = []\<rparr>
     = destination ''/about'' ''utm_source=godoc''
   \<and> pkgGoDevURL \<lparr>Scheme = [], Host = [], Path = ''/'', RawQuery = ''q=json''\<rparr>
     = destination ''/search'' ''q=json&utm_source=godoc''
   \<and> pkgGoDevURL \<lparr>Scheme = [], Host = [], Path = ''/some/pkg/vendor/x'', RawQuery = []\<rparr>
     = destination ''/'' ''utm_source=godoc''
   \<and> pkgGoDevURL \<lparr>Scheme = [], Host = [], Path = ''/some/pkg/vendor'', RawQuery = ''imports''\<rparr>
     = destination ''/'' ''utm_source=godoc''
   \<and> pkgGoDevURL \<lparr>Scheme = [], Host = [], Path = ''/some/pkg'', RawQuery = ''imports''\<rparr>
     = destination ''/some/pkg'' ''tab=imports&utm_source=godoc''
   \<and> pkgGoDevURL \<lparr>Scheme = [], Host = [], Path = ''/some/pkg'', RawQuery = ''importers''\<rparr>
     = destination ''/some/pkg'' ''tab=importedby&utm_source=godoc''
   \<and> pkgGoDevURL \<lparr>Scheme = [], Host = [], Path = ''/some/pkg'', RawQuery = []\<rparr>
     = destination ''/some/pkg'' ''tab=doc&utm_source=godoc''"
proof -
  have q: "Get (Query \<lparr>Scheme = [], Host = [], Path = ''/'', RawQuery = ''q=json''\<rparr>) ''q'' = ''json''"
    by code_simp
  have v1: "sublist ''/vendor/'' ''/some/pkg/vendor/x''"
    by code_simp
  have v2: "suffix ''/vendor'' ''/some/pkg/vendor''"
    by code_simp
  have i1: "has_key (Query \<lparr>Scheme = [], Host = [], Path = ''/some/pkg'', RawQuery = ''imports''\<rparr>) ''imports''"
    by code_simp
  have i2: "\<not> has_key (Query \<lparr>Scheme = [], Host = [], Path = ''/some/pkg'', RawQuery = ''importers''\<rparr>) ''imports''"
    "has_key (Query \<lparr>Scheme = [], Host = [], Path = ''/some/pkg'', RawQuery = ''importers''\<rparr>) ''importers''"
    by code_simp+
  show ?thesis
    using q v1 v2 i1 i2
      pkgGoDevURL_concrete_cases [of "\<lparr>Scheme = [], Host = [], Path = ''/'', RawQuery = ''q=json''\<rparr>"]
      pkgGoDevURL_concrete_cases [of "\<lparr>Scheme = [], Host = [], Path = ''/some/pkg/vendor/x'', RawQuery = []\<rparr>"]
      pkgGoDevURL_concrete_cases [of "\<lparr>Scheme = [], Host = [], Path = ''/some/pkg/vendor'', RawQuery = ''imports''\<rparr>"]
      pkgGoDevURL_concrete_cases [of "\<lparr>Scheme = [], Host = [], Path = ''/some/pkg'', RawQuery = ''imports''\<rparr>"]
      pkgGoDevURL_concrete_cases [of "\<lparr>Scheme = [], Host = [], Path = ''/some/pkg'', RawQuery = ''importers''\<rparr>"]
      pkgGoDevURL_concrete_cases [of "\<lparr>Scheme = [], Host = [], Path = ''/some/pkg'', RawQuery = []\<rparr>"]
    by simp
qed

text \<open>
  C9. In the default branch (the path has no vendor element and is none of \<open>/-/go\<close>,
  \<open>/-/about\<close>, \<open>/\<close>, \<open>/-/subrepo\<close>) the path is kept and the query of the destination is
  \<open>tab=T&utm_source=godoc\<close>, which parses to exactly these two parameters, whatever else the
  legacy query held; \<open>T\<close> is \<open>imports\<close> when the legacy query has an \<open>imports\<close> parameter
  (also when it has \<open>importers\<close> too), else \<open>importedby\<close> when it has an \<open>importers\<close>
  parameter, else \<open>doc\<close>.
\<close>

theorem pkgGoDevURL_default_query:
  assumes "\<not> sublist ''/vendor/'' (Path u)" and "\<not> suffix ''/vendor'' (Path u)"
    and "Path u \<notin> {''/-/go'', ''/-/about'', ''/'', ''/-/subrepo''}"
  shows "(let tab = (if has_key (Query u) ''imports'' then ''imports''
                     else if has_key (Query u) ''importers'' then ''importedby''
                     else ''doc'')
          in Path (pkgGoDevURL u) = Path u
             \<and> RawQuery (pkgGoDevURL u) = ''tab='' @ tab @ ''&utm_source=godoc''
             \<and> ParseQuery (RawQuery (pkgGoDevURL u))
                 = ([(''tab'', [tab]), (''utm_source'', [''godoc''])], None))
         \<and> (has_key (Query u) ''imports'' \<and> has_key (Query u) ''importers'' \<longrightarrow>
              RawQuery (pkgGoDevURL u) = ''tab=imports&utm_source=godoc'')"
proof -
  have parse: "ParseQuery (''tab='' @ t @ ''&utm_source=godoc'')
                 = ([(''tab'', [t]), (''utm_source'', [''godoc''])], None)"
    if "t = ''imports'' \<or> t = ''importedby'' \<or> t = ''doc''" for t
    using that ParseQuery_with_attribution [of "''tab''" t]
    by (auto simp: QueryEscape_tabs)
  have dest: "pkgGoDevURL u = destination (Path u)
           (''tab='' @ (if has_key (Query u) ''imports'' then ''imports''
                        else if has_key (Query u) ''importers'' then ''importedby''
                        else ''doc'') @ ''&utm_source=godoc'')"
    using assms by (intro pkgGoDevURL_default) simp_all
  show ?thesis
    unfolding dest Let_def
    using parse [of "''imports''"] parse [of "''importedby''"] parse [of "''doc''"]
    by simp
qed

theorem pkgGoDevURL_default_query_witness:
  "has_key (Query \<lparr>Scheme = [], Host = [], Path = ''/some/pkg'',
                    RawQuery = ''importers&imports&foo=bar''\<rparr>) ''imports''
   \<and> has_key (Query \<lparr>Scheme = [], Host = [], Path = ''/some/pkg'',
                      RawQuery = ''importers&imports&foo=bar''\<rparr>) ''importers''
   \<and> pkgGoDevURL \<lparr>Scheme = [], Host = [], Path = ''/some/pkg'',
                    RawQuery = ''importers&imports&foo=bar''\<rparr>
       = destination ''/some/pkg'' ''tab=imports&utm_source=godoc''
   \<and> ParseQuery ''tab=imports&utm_source=godoc''
       = ([(''tab'', [''imports'']), (''utm_source'', [''godoc''])], None)"
proof -
  let ?u = "\<lparr>Scheme = [], Host = [], Path = ''/some/pkg'', RawQuery = ''importers&imports&foo=bar''\<rparr>"
  have keys: "has_key (Query ?u) ''imports''" "has_key (Query ?u) ''importers''"
    by code_simp+
  have fixed: "Scheme (pkgGoDevURL ?u) = ''https''" "Host (pkgGoDevURL ?u) = ''pkg.go.dev''"
    using pkgGoDevURL_fixed [of ?u] by simp_all
  have parsed: "ParseQuery ''tab=imports&utm_source=godoc''
            = ([(''tab'', [''imports'']), (''utm_source'', [''godoc''])], None)"
    by code_simp
  have all: "Path (pkgGoDevURL ?u) = ''/some/pkg''
        \<and> RawQuery (pkgGoDevURL ?u) = ''tab=imports&utm_source=godoc''"
    using keys pkgGoDevURL_default_query [of ?u]
    by (simp add: not_vendor_examples Let_def)
  then have "pkgGoDevURL ?u = destination ''/some/pkg'' ''tab=imports&utm_source=godoc''"
    using fixed by (cases "pkgGoDevURL ?u") simp
  with keys parsed show ?thesis
    by blast
qed

subsection \<open>RedirectResolver: the handler\<close>

text \<open>
  The marker of a user returning from pkg.go.dev is the parameter \<open>utm_source\<close> with
  the value \<open>backtogodoc\<close>; its presence alone is not enough. A request that carries
  \<open>utm_source=twitter\<close> and \<open>redirect=on\<close> is redirected, and the wrapped handler
  is not run.
\<close>

theorem handler_marker_other_value_counterexample:
  "has_key (Form (plain_request [] ''godoc.org'' ''/some/pkg'' ''utm_source=twitter&redirect=on'' []))
     ''utm_source''
   \<and> pkgGoDevRedirectHandler servePage empty_response
        (plain_request [] ''godoc.org'' ''/some/pkg'' ''utm_source=twitter&redirect=on'' [])
       = (None,
          \<lparr>SetCookies = [\<lparr>Name = ''pkggodev-redirect'', Value = ''on'', CookiePath = ''/'',
                           MaxAge = 0, Expires = None\<rparr>],
           Location = Some ''https://pkg.go.dev/some/pkg?tab=doc&utm_source=godoc'',
           StatusCode = Some 302\<rparr>)
   \<and> pkgGoDevRedirectHandler servePage empty_response
        (plain_request [] ''godoc.org'' ''/some/pkg'' ''utm_source=twitter&redirect=on'' [])
       \<noteq> servePage empty_response
          (plain_request [] ''godoc.org'' ''/some/pkg'' ''utm_source=twitter&redirect=on'' [])"
proof -
  let ?r = "plain_request [] ''godoc.org'' ''/some/pkg'' ''utm_source=twitter&redirect=on'' []"
  have present: "has_key (Form ?r) ''utm_source''"
    by code_simp
  have run: "pkgGoDevRedirectHandler servePage empty_response ?r
       = (None,
          \<lparr>SetCookies = [\<lparr>Name = ''pkggodev-redirect'', Value = ''on'', CookiePath = ''/'',
                           MaxAge = 0, Expires = None\<rparr>],
           Location = Some ''https://pkg.go.dev/some/pkg?tab=doc&utm_source=godoc'',
           StatusCode = Some 302\<rparr>)"
    by code_simp
  have "servePage empty_response ?r = (None, \<lparr>SetCookies = [], Location = None, StatusCode = Some 200\<rparr>)"
    by (simp add: servePage_def)
  with present run show ?thesis
    by simp
qed

text \<open>
  C5, amended. For every request whose parameter \<open>utm_source\<close> has the value
  \<open>backtogodoc\<close>, the redirect handler sets no cookie and writes no redirect: it passes
  the response writer and the request to the wrapped handler and returns what that returns.
\<close>

theorem handler_returning_user_bypass:
  "FormValue r ''utm_source'' = ''backtogodoc'' \<Longrightarrow> pkgGoDevRedirectHandler f w r = f w r"
  by (simp add: pkgGoDevRedirectHandler_def userReturningFromPkgGoDev_def)

theorem handler_returning_user_bypass_witness:
  "FormValue (plain_request [] ''godoc.org'' ''/some/pkg'' ''utm_source=backtogodoc&redirect=on''
               [(''pkggodev-redirect'', ''on'')]) ''utm_source'' = ''backtogodoc''
   \<and> pkgGoDevRedirectHandler servePage empty_response
        (plain_request [] ''godoc.org'' ''/some/pkg'' ''utm_source=backtogodoc&redirect=on''
           [(''pkggodev-redirect'', ''on'')])
       = (None, \<lparr>SetCookies = [], Location = None, StatusCode = Some 200\<rparr>)"
proof -
  let ?r = "plain_request [] ''godoc.org'' ''/some/pkg'' ''utm_source=backtogodoc&redirect=on''
              [(''pkggodev-redirect'', ''on'')]"
  have marker: "FormValue ?r ''utm_source'' = ''backtogodoc''"
    by code_simp
  from handler_returning_user_bypass [OF marker, of servePage empty_response] marker
  show ?thesis
    by (simp add: servePage_def)
qed



end
